theory Spec2Isabelle
  imports Main
begin

section \<open>String and array primitives of the host language\<close>

text \<open>
  Strings are \<^typ>\<open>string\<close> (lists of 8-bit characters); arrays are lists.
  \<open>Array.prototype.includes\<close> is membership, \<open>some\<close> is \<^const>\<open>list_ex\<close>,
  \<open>every\<close> is \<^const>\<open>list_all\<close> and \<open>find\<close> is \<^const>\<open>List.find\<close>.
\<close>

definition arr_includes :: "'a list \<Rightarrow> 'a \<Rightarrow> bool" where
  "arr_includes xs x = (x \<in> set xs)"

definition startsWith :: "string \<Rightarrow> string \<Rightarrow> bool" where
  "startsWith s pre = (take (length pre) s = pre)"

definition endsWith :: "string \<Rightarrow> string \<Rightarrow> bool" where
  "endsWith s suf = (length suf \<le> length s \<and> drop (length s - length suf) s = suf)"

text \<open>\<open>s.slice(0, -k)\<close>: the string without its last \<open>k\<close> characters (empty when shorter).\<close>

definition slice_end :: "string \<Rightarrow> nat \<Rightarrow> string" where
  "slice_end s k = take (length s - k) s"

text \<open>
  \<open>String.prototype.trim\<close> removes white space and line terminators from both ends; on
  8-bit characters these are the codes 9 to 13, 32 and 160.
\<close>

definition isWhiteSpace :: "char \<Rightarrow> bool" where
  "isWhiteSpace c = ((of_char c :: nat) \<in> {9, 10, 11, 12, 13, 32, 160})"

definition trim :: "string \<Rightarrow> string" where
  "trim s = rev (dropWhile isWhiteSpace (rev (dropWhile isWhiteSpace s)))"

text \<open>Truthiness of a string that may be \<open>null\<close>/\<open>undefined\<close>: the empty string is falsy.\<close>

definition truthy :: "string option \<Rightarrow> bool" where
  "truthy v = (case v of None \<Rightarrow> False | Some s \<Rightarrow> s \<noteq> [])"

section \<open>Rule engine (sidebar/sidebarRules.ts)\<close>

definition matchPermission :: "string list \<Rightarrow> string \<Rightarrow> bool" where
  "matchPermission userPermissions requiredPermission =
     (if arr_includes userPermissions requiredPermission then True
      else if endsWith requiredPermission ''.*'' then
        (let prefix = slice_end requiredPermission 2
         in list_ex (\<lambda>perm. startsWith perm prefix) userPermissions)
      else False)"

record RuleUser =
  ru_id :: string
  ru_permissions :: "string list"
  ru_role :: "string option"

record RuleContext =
  ctx_user :: "RuleUser option"
  ctx_permissions :: "string list"
  ctx_features :: "string list option"

text \<open>A rule is an object with one field, the closure \<open>evaluate\<close>.\<close>

datatype Rule = Rule (evaluate: "RuleContext \<Rightarrow> bool")

text \<open>
  \<open>and(...rules)\<close> and \<open>or(...rules)\<close> take a rest parameter, which is always an array, so
  the \<open>Array.isArray\<close> test of the source always succeeds and its \<open>return false\<close> is dead.
  Neither constructor validates its argument list or throws.
\<close>

definition and_rule :: "Rule list \<Rightarrow> Rule" where
  "and_rule rules = Rule (\<lambda>context. list_all (\<lambda>rule. evaluate rule context) rules)"

definition or_rule :: "Rule list \<Rightarrow> Rule" where
  "or_rule rules = Rule (\<lambda>context. list_ex (\<lambda>rule. evaluate rule context) rules)"

definition hasPermission :: "string \<Rightarrow> Rule" where
  "hasPermission permission =
     Rule (\<lambda>context. matchPermission (ctx_permissions context) permission)"

definition hasFeature :: "string \<Rightarrow> Rule" where
  "hasFeature feature =
     Rule (\<lambda>context. case ctx_features context of
                        None \<Rightarrow> False
                      | Some features \<Rightarrow> arr_includes features feature)"

definition isAuthenticated :: Rule where
  "isAuthenticated = Rule (\<lambda>context. ctx_user context \<noteq> None)"

definition hasRole :: "string \<Rightarrow> Rule" where
  "hasRole role =
     Rule (\<lambda>context. case ctx_user context of
                        None \<Rightarrow> False
                      | Some user \<Rightarrow> ru_role user = Some role)"

section \<open>Effects\<close>

text \<open>
  Everything the code does besides updating its own state is recorded, in order, in a
  trace: the remote calls, the accesses to \<open>localStorage\<close> and the console output.
\<close>

datatype Effect =
    HttpGet string
  | HttpPost string
  | GetItem string
  | SetItem string string
  | RemoveItem string
  | ConsoleError string
  | ConsoleWarn string

text \<open>
  A rejected remote call: an Axios error carries the status of the response when there is
  one; anything else thrown is \<open>OtherError\<close>.
\<close>

datatype HttpError = AxiosError "nat option" | OtherError

section \<open>Session manager (AuthContext)\<close>

record UserCompany =
  uc_id :: string
  uc_name :: string
  uc_logo_url :: "string option"

record User =
  u_id :: string
  u_email :: string
  u_name :: string
  u_role :: string
  u_status :: string
  u_permissions :: "string list"
  u_masterId :: "string option"
  u_companies :: "UserCompany list"

text \<open>
  The two state cells of \<open>AuthProvider\<close>, with the trace of what the provider has done.
  Each render of the provider reads the cells into constants and creates its functions
  anew; a function that mentions \<open>user\<close> sees the constant of the render that created
  it, while \<open>setUser\<close> and \<open>setIsLoading\<close> write the cells themselves.
\<close>

record AuthState =
  user :: "User option"
  isLoading :: bool
  auth_trace :: "Effect list"

definition initialAuth :: AuthState where
  "initialAuth = \<lparr>user = None, isLoading = True, auth_trace = []\<rparr>"


definition url_auth_signOut :: string where
  "url_auth_signOut = ''/auth/sign-out''"




text \<open>\<open>logout\<close>; \<open>response\<close> is the outcome of \<open>POST /auth/sign-out\<close>.\<close>

definition logout :: "(HttpError + unit) \<Rightarrow> AuthState \<Rightarrow> AuthState" where
  "logout response s =
     (let s1 = s\<lparr>auth_trace := auth_trace s @ [HttpPost url_auth_signOut]\<rparr>;
          s2 = (case response of
                  Inr _ \<Rightarrow> s1
                | Inl _ \<Rightarrow> s1\<lparr>auth_trace := auth_trace s1 @ [ConsoleError ''Logout error:'']\<rparr>)
      in s2\<lparr>user := None\<rparr>)"

definition updateUser :: "User \<Rightarrow> AuthState \<Rightarrow> AuthState" where
  "updateUser userData s = s\<lparr>user := Some userData\<rparr>"

text \<open>The value the provider publishes, read through \<open>useAuth\<close>.\<close>

record AuthContextType =
  cv_user :: "User option"
  cv_isAuthenticated :: bool
  cv_isLoading :: bool

definition useAuth :: "AuthState \<Rightarrow> AuthContextType" where
  "useAuth s = \<lparr>cv_user = user s, cv_isAuthenticated = (user s \<noteq> None),
                cv_isLoading = isLoading s\<rparr>"

text \<open>
  The session states the specification speaks of, read off the two cells: loading is
  \<open>Verifying\<close>; settled with an identity is \<open>Authenticated\<close>, settled without is
  \<open>Anonymous\<close>.
\<close>

datatype SessionState = Verifying | Authenticated User | Anonymous

definition sessionState :: "AuthState \<Rightarrow> SessionState" where
  "sessionState s =
     (if isLoading s then Verifying
      else case user s of Some u \<Rightarrow> Authenticated u | None \<Rightarrow> Anonymous)"

section \<open>Access guard (components/Secured.tsx)\<close>

datatype Decision = Pending | RedirectToLogin | RedirectToHome | Forbidden | Allow

text \<open>
  What \<open>Secured\<close> renders: the loader (\<open>Pending\<close>), a navigation to the login or the
  dashboard path, the permission message (\<open>Forbidden\<close>) or its children (\<open>Allow\<close>).
  The props \<open>authenticated\<close>, \<open>permissions\<close> and \<open>features\<close> may be \<open>null\<close>.
  The block on \<open>features\<close> has an empty body in the source.
\<close>

definition Secured ::
  "AuthContextType \<Rightarrow> bool option \<Rightarrow> string list option \<Rightarrow> string list option \<Rightarrow> Decision" where
  "Secured auth authenticated permissions features =
     (if cv_isLoading auth then Pending
      else if authenticated = Some True \<and> \<not> cv_isAuthenticated auth then RedirectToLogin
      else if authenticated = Some False \<and> cv_isAuthenticated auth \<and> \<not> cv_isLoading auth
           then RedirectToHome
      else case (permissions, cv_user auth) of
             (Some ps, Some u) \<Rightarrow>
               if length ps > 0 then
                 (let hasPermission = list_ex (\<lambda>permission. arr_includes (u_permissions u) permission) ps
                  in if \<not> hasPermission then Forbidden else Allow)
               else Allow
           | _ \<Rightarrow> Allow)"

section \<open>Tenant selector (CompanyContext)\<close>

text \<open>
  Optional fields are options; \<open>null\<close> and \<open>undefined\<close> are both \<open>None\<close>. The
  \<open>settings\<close> object is never inspected here and is kept as a list of pairs.
\<close>

record Company =
  c_id :: string
  c_master_id :: string
  c_name :: string
  c_slug :: string
  c_domain :: "string option"
  c_description :: "string option"
  c_logo_url :: "string option"
  c_theme :: "string option"
  c_status :: "string option"
  c_settings :: "(string \<times> string) list option"
  c_created_at :: string
  c_updated_at :: string

definition SELECTED_COMPANY_STORAGE_KEY :: string where
  "SELECTED_COMPANY_STORAGE_KEY = ''csid''"

definition url_company_list :: string where
  "url_company_list = ''/companies''"

definition url_company_get :: "string \<Rightarrow> string" where
  "url_company_get ident = ''/companies/'' @ ident"

text \<open>
  The three state cells of \<open>CompanyProvider\<close> (its \<open>isLoading\<close> is \<open>cs_isLoading\<close>
  here), the browser's \<open>localStorage\<close> and the trace. Storage operations are taken not
  to throw.
\<close>

record CompanyState =
  companies :: "Company list"
  selectedCompany :: "Company option"
  cs_isLoading :: bool
  localStorage :: "string \<rightharpoonup> string"
  trace :: "Effect list"

definition logEffect :: "Effect \<Rightarrow> CompanyState \<Rightarrow> CompanyState" where
  "logEffect e w = w\<lparr>trace := trace w @ [e]\<rparr>"

definition setItem :: "string \<Rightarrow> string \<Rightarrow> CompanyState \<Rightarrow> CompanyState" where
  "setItem k v w = w\<lparr>localStorage := (localStorage w)(k \<mapsto> v), trace := trace w @ [SetItem k v]\<rparr>"

definition removeItem :: "string \<Rightarrow> CompanyState \<Rightarrow> CompanyState" where
  "removeItem k w = w\<lparr>localStorage := (localStorage w)(k := None), trace := trace w @ [RemoveItem k]\<rparr>"

text \<open>
  What the collaborators answer: \<open>companyService.get(id)\<close>, \<open>companyService.list()\<close>,
  \<open>new Date(s).getTime()\<close>, which is \<open>None\<close> (\<open>NaN\<close>) for a string that is not a date,
  and the host's \<open>Array.prototype.sort\<close> on a copy of the array. The sort is a parameter:
  the engine is not part of the source, and the language fixes its result only for a
  consistent comparator.
\<close>

record Collaborators =
  company_get :: "string \<Rightarrow> HttpError + Company"
  company_list :: "HttpError + Company list"
  date_getTime :: "string \<Rightarrow> int option"
  array_sort :: "(Company \<Rightarrow> Company \<Rightarrow> int option) \<Rightarrow> Company list \<Rightarrow> Company list"

text \<open>
  The comparator \<open>(a, b) => new Date(a.created_at).getTime() - new Date(b.created_at).getTime()\<close>;
  \<open>None\<close> is \<open>NaN\<close>.
\<close>

definition compareCreated :: "(string \<Rightarrow> int option) \<Rightarrow> Company \<Rightarrow> Company \<Rightarrow> int option" where
  "compareCreated getTime a b =
     (case (getTime (c_created_at a), getTime (c_created_at b)) of
        (Some x, Some y) \<Rightarrow> Some (x - y)
      | _ \<Rightarrow> None)"

text \<open>
  What the language requires of the result \<open>ys\<close> of sorting \<open>xs\<close>, as far as it is used
  here: the same elements, none of them followed by one that the comparator puts strictly
  before it.
\<close>

definition sortedOutput :: "('a \<Rightarrow> 'a \<Rightarrow> int option) \<Rightarrow> 'a list \<Rightarrow> 'a list \<Rightarrow> bool" where
  "sortedOutput cmp xs ys =
     (set ys = set xs \<and> length ys = length xs
      \<and> sorted_wrt (\<lambda>a b. case cmp b a of Some d \<Rightarrow> 0 \<le> d | None \<Rightarrow> True) ys)"

text \<open>A company of the list whose creation date parses and is not after any other's.\<close>

definition earliestCreated :: "(string \<Rightarrow> int option) \<Rightarrow> Company list \<Rightarrow> Company \<Rightarrow> bool" where
  "earliestCreated getTime cs c =
     (c \<in> set cs
      \<and> list_all (\<lambda>x. case (getTime (c_created_at c), getTime (c_created_at x)) of
                         (Some tc, Some tx) \<Rightarrow> tc \<le> tx
                       | _ \<Rightarrow> False) cs)"

text \<open>The minimal company built from the membership stub \<open>user.companies[0]\<close>.\<close>

definition fallbackCompany :: "User \<Rightarrow> UserCompany \<Rightarrow> Company" where
  "fallbackCompany u userCompany =
     \<lparr>c_id = uc_id userCompany,
      c_master_id = (case u_masterId u of Some m \<Rightarrow> m | None \<Rightarrow> []),
      c_name = uc_name userCompany,
      c_slug = [],
      c_domain = None,
      c_description = None,
      c_logo_url = (if truthy (uc_logo_url userCompany) then uc_logo_url userCompany else None),
      c_theme = None,
      c_status = None,
      c_settings = None,
      c_created_at = [],
      c_updated_at = []\<rparr>"

text \<open>The outer \<open>catch\<close>: the list could not be fetched.\<close>

definition fetchFailed :: "User \<Rightarrow> CompanyState \<Rightarrow> CompanyState" where
  "fetchFailed u w =
     (let w1 = logEffect (ConsoleError ''Failed to fetch companies:'') w
      in case u_companies u of
           userCompany # _ \<Rightarrow>
             w1\<lparr>companies := [fallbackCompany u userCompany],
                selectedCompany := Some (fallbackCompany u userCompany)\<rparr>
         | [] \<Rightarrow> w1\<lparr>companies := [], selectedCompany := None\<rparr>)"

text \<open>The branch for \<open>team_member\<close>: fetch the assigned company by id.\<close>

definition fetchAssigned :: "Collaborators \<Rightarrow> User \<Rightarrow> string \<Rightarrow> CompanyState \<Rightarrow> CompanyState" where
  "fetchAssigned env u defaultCompanyId w =
     (let w1 = logEffect (HttpGet (url_company_get defaultCompanyId)) w
      in case company_get env defaultCompanyId of
           Inr companyDetails \<Rightarrow>
             setItem SELECTED_COMPANY_STORAGE_KEY (c_id companyDetails)
               (w1\<lparr>companies := [companyDetails], selectedCompany := Some companyDetails\<rparr>)
         | Inl _ \<Rightarrow>
             (let w2 = logEffect (ConsoleError ''Failed to fetch company details:'') w1
              in case u_companies u of
                   userCompany # _ \<Rightarrow>
                     setItem SELECTED_COMPANY_STORAGE_KEY (c_id (fallbackCompany u userCompany))
                       (w2\<lparr>companies := [fallbackCompany u userCompany],
                           selectedCompany := Some (fallbackCompany u userCompany)\<rparr>)
                 | [] \<Rightarrow> fetchFailed u w2))"

text \<open>
  The default when nothing is restored: the company of \<open>user.companies[0]\<close> if it is in
  the fetched list, else the first element of the list as the host sorts it by
  \<open>created_at\<close>.
\<close>

definition defaultCompany :: "Collaborators \<Rightarrow> Company list \<Rightarrow> string \<Rightarrow> Company option" where
  "defaultCompany env fetchedCompanies defaultCompanyId =
     (let d1 = (if defaultCompanyId \<noteq> []
                then find (\<lambda>c. c_id c = defaultCompanyId) fetchedCompanies else None)
      in if d1 = None \<and> length fetchedCompanies > 0
         then (case array_sort env (compareCreated (date_getTime env)) fetchedCompanies of
                 c # _ \<Rightarrow> Some c
               | [] \<Rightarrow> None)
         else d1)"

definition applyDefault :: "Company option \<Rightarrow> CompanyState \<Rightarrow> CompanyState" where
  "applyDefault d w =
     (case d of
        Some c \<Rightarrow> setItem SELECTED_COMPANY_STORAGE_KEY (c_id c) (w\<lparr>selectedCompany := Some c\<rparr>)
      | None \<Rightarrow> w)"

text \<open>The branch for the other roles: fetch the list, then keep, restore or default.\<close>

definition fetchList :: "Collaborators \<Rightarrow> User \<Rightarrow> string \<Rightarrow> CompanyState \<Rightarrow> CompanyState" where
  "fetchList env u defaultCompanyId w =
     (let w1 = logEffect (HttpGet url_company_list) w
      in case company_list env of
           Inl _ \<Rightarrow> fetchFailed u w1
         | Inr fetchedCompanies \<Rightarrow>
             (let w2 = w1\<lparr>companies := fetchedCompanies\<rparr>;
                  savedCompanyId = localStorage w2 SELECTED_COMPANY_STORAGE_KEY;
                  w3 = logEffect (GetItem SELECTED_COMPANY_STORAGE_KEY) w2;
                  stillExists =
                    (case selectedCompany w of
                       None \<Rightarrow> None
                     | Some sel \<Rightarrow> find (\<lambda>c. c_id c = c_id sel) fetchedCompanies);
                  d = defaultCompany env fetchedCompanies defaultCompanyId
              in case (selectedCompany w, stillExists) of
                   (Some sel, Some _) \<Rightarrow>
                     (setItem SELECTED_COMPANY_STORAGE_KEY (c_id sel) w3)\<lparr>cs_isLoading := False\<rparr>
                 | _ \<Rightarrow>
                     (case savedCompanyId of
                        Some sid \<Rightarrow>
                          if sid \<noteq> [] \<and> trim sid \<noteq> [] then
                            (case find (\<lambda>c. c_id c = trim sid) fetchedCompanies of
                               Some savedCompany \<Rightarrow>
                                 (setItem SELECTED_COMPANY_STORAGE_KEY (c_id savedCompany)
                                    (w3\<lparr>selectedCompany := Some savedCompany\<rparr>))
                                 \<lparr>cs_isLoading := False\<rparr>
                             | None \<Rightarrow>
                                 applyDefault d (removeItem SELECTED_COMPANY_STORAGE_KEY w3))
                          else applyDefault d w3
                      | None \<Rightarrow> applyDefault d w3)))"

text \<open>
  \<open>fetchCompanies\<close>, with \<open>user\<close> as \<open>useAuth\<close> gives it; the \<open>finally\<close> block runs on
  every path that entered the \<open>try\<close>. The function is taken to be the current render's:
  the \<open>selectedCompany\<close> it reads is the cell at the invocation.
\<close>

definition fetchCompanies :: "Collaborators \<Rightarrow> User option \<Rightarrow> CompanyState \<Rightarrow> CompanyState" where
  "fetchCompanies env usr w =
     (case usr of
        None \<Rightarrow> w\<lparr>cs_isLoading := False\<rparr>
      | Some u \<Rightarrow>
          (let w1 = w\<lparr>cs_isLoading := True\<rparr>;
               defaultCompanyId = (case u_companies u of c # _ \<Rightarrow> Some (uc_id c) | [] \<Rightarrow> None);
               w2 = (if \<not> truthy defaultCompanyId
                     then w1\<lparr>companies := [], selectedCompany := None, cs_isLoading := False\<rparr>
                     else case defaultCompanyId of
                            Some cid \<Rightarrow>
                              if u_role u = ''team_member'' then fetchAssigned env u cid w1
                              else fetchList env u cid w1
                          | None \<Rightarrow> w1)
           in w2\<lparr>cs_isLoading := False\<rparr>))"

text \<open>The effect run when \<open>user\<close> or the auth loading flag changes.\<close>

definition onUserChange :: "Collaborators \<Rightarrow> AuthContextType \<Rightarrow> CompanyState \<Rightarrow> CompanyState" where
  "onUserChange env auth w =
     (if cv_isLoading auth then w
      else case cv_user auth of
             None \<Rightarrow>
               (removeItem SELECTED_COMPANY_STORAGE_KEY w)
                 \<lparr>companies := [], selectedCompany := None, cs_isLoading := False\<rparr>
           | Some u \<Rightarrow> fetchCompanies env (Some u) w)"

definition setSelectedCompany :: "Company option \<Rightarrow> CompanyState \<Rightarrow> CompanyState" where
  "setSelectedCompany company w =
     (let w1 = w\<lparr>selectedCompany := company\<rparr>
      in case company of
           Some c \<Rightarrow> setItem SELECTED_COMPANY_STORAGE_KEY (c_id c) w1
         | None \<Rightarrow> removeItem SELECTED_COMPANY_STORAGE_KEY w1)"

definition refreshCompanies :: "Collaborators \<Rightarrow> User option \<Rightarrow> CompanyState \<Rightarrow> CompanyState" where
  "refreshCompanies env usr w = fetchCompanies env usr w"

text \<open>The effects a run appended to the trace.\<close>

definition issued :: "CompanyState \<Rightarrow> CompanyState \<Rightarrow> Effect list" where
  "issued w w' = drop (length (trace w)) (trace w')"

text \<open>The same cells and trace over a storage that has no entry for the selected company.\<close>

definition withoutSaved :: "CompanyState \<Rightarrow> CompanyState" where
  "withoutSaved w =
     w\<lparr>localStorage := (localStorage w)(SELECTED_COMPANY_STORAGE_KEY := None)\<rparr>"

section \<open>Example data\<close>

definition exampleUser :: "string \<Rightarrow> string list \<Rightarrow> UserCompany list \<Rightarrow> User" where
  "exampleUser role perms cs =
     \<lparr>u_id = ''u1'', u_email = ''user@example.com'', u_name = ''User'', u_role = role,
      u_status = ''active'', u_permissions = perms, u_masterId = None, u_companies = cs\<rparr>"

definition exampleMembership :: "string \<Rightarrow> UserCompany" where
  "exampleMembership ident = \<lparr>uc_id = ident, uc_name = ''Company'', uc_logo_url = None\<rparr>"

definition exampleCompany :: "string \<Rightarrow> string \<Rightarrow> Company" where
  "exampleCompany ident created =
     \<lparr>c_id = ident, c_master_id = ''m1'', c_name = ''Company'', c_slug = ident,
      c_domain = None, c_description = None, c_logo_url = None, c_theme = None,
      c_status = None, c_settings = None, c_created_at = created, c_updated_at = created\<rparr>"

text \<open>Milliseconds since the epoch of the two dates used below; no other string is a date.\<close>

definition exampleDates :: "string \<Rightarrow> int option" where
  "exampleDates s =
     (if s = ''2024-01-01'' then Some 1704067200000
      else if s = ''2024-02-01'' then Some 1706745600000
      else None)"

text \<open>
  A host sort for the examples: stable insertion, which leaves \<open>a\<close> before \<open>b\<close> unless
  the comparator is positive (\<open>NaN\<close> counting as zero). It is used on dates that parse.
\<close>

fun insertBy :: "('a \<Rightarrow> 'a \<Rightarrow> int option) \<Rightarrow> 'a \<Rightarrow> 'a list \<Rightarrow> 'a list" where
  "insertBy cmp x [] = [x]"
| "insertBy cmp x (y # ys) =
     (case cmp x y of
        Some d \<Rightarrow> if d > 0 then y # insertBy cmp x ys else x # y # ys
      | None \<Rightarrow> x # y # ys)"

definition exampleSort :: "('a \<Rightarrow> 'a \<Rightarrow> int option) \<Rightarrow> 'a list \<Rightarrow> 'a list" where
  "exampleSort cmp xs = foldr (insertBy cmp) xs []"

text \<open>Collaborators that list the given companies and reject every fetch by id.\<close>

definition exampleEnv :: "Company list \<Rightarrow> Collaborators" where
  "exampleEnv cs =
     \<lparr>company_get = (\<lambda>_. Inl (AxiosError None)), company_list = Inr cs,
      date_getTime = exampleDates, array_sort = exampleSort\<rparr>"

text \<open>The state of \<open>CompanyProvider\<close> when it mounts, over a given \<open>localStorage\<close>.\<close>

definition initialCompanyState :: "(string \<rightharpoonup> string) \<Rightarrow> CompanyState" where
  "initialCompanyState st =
     \<lparr>companies = [], selectedCompany = None, cs_isLoading = True, localStorage = st,
      trace = []\<rparr>"

definition exampleContext :: "string list \<Rightarrow> RuleContext" where
  "exampleContext perms =
     \<lparr>ctx_user = Some \<lparr>ru_id = ''u1'', ru_permissions = perms, ru_role = Some ''owner''\<rparr>,
      ctx_permissions = perms, ctx_features = None\<rparr>"

section \<open>Rule engine: permission matching and composites\<close>

lemma matchPermission_no_wildcard:
  "\<not> endsWith t ''.*'' \<Longrightarrow> matchPermission ps t = (t \<in> set ps)"
  by (simp add: matchPermission_def arr_includes_def)

lemma matchPermission_wildcard:
  "endsWith t ''.*'' \<Longrightarrow>
     matchPermission ps t = (t \<in> set ps \<or> (\<exists>p\<in>set ps. startsWith p (slice_end t 2)))"
  by (simp add: matchPermission_def arr_includes_def list_ex_iff)

text \<open>
  C1. The claim: for a token ending in \<open>.*\<close>, \<open>hasPermission\<close> holds iff some held
  permission starts with the prefix followed by the dot, so that \<open>blog.*\<close> does not match
  \<open>blogging.create\<close>. The code strips both characters of the suffix and compares against
  the bare prefix: against the single held permission \<open>blogging.create\<close> the token
  \<open>blog.*\<close> matches, although that permission does not start with \<open>blog.\<close>.
\<close>

theorem matchPermission_wildcard_bare_prefix:
  "matchPermission [''blogging.create''] ''blog.*'' = True
   \<and> evaluate (hasPermission ''blog.*'') (exampleContext [''blogging.create'']) = True
   \<and> endsWith ''blog.*'' ''.*''
   \<and> startsWith ''blogging.create'' ''blog.'' = False"
  by (simp add: matchPermission_def hasPermission_def exampleContext_def arr_includes_def
      endsWith_def slice_end_def startsWith_def)

text \<open>
  C5, as stated, fails: \<open>and()\<close> and \<open>or()\<close> with no argument are not rejected; they
  yield rules that evaluate, to true and to false.
\<close>

theorem and_or_empty_accepted_counterexample:
  "evaluate (and_rule []) (exampleContext []) = True
   \<and> evaluate (or_rule []) (exampleContext []) = False"
  by (simp add: and_rule_def or_rule_def)

text \<open>
  C5, amended. \<open>and(...)\<close> and \<open>or(...)\<close> accept every argument list, the empty one
  included: \<open>and\<close> evaluates to true iff every child evaluates to true (so \<open>and()\<close> is
  true) and \<open>or\<close> evaluates to true iff at least one child does (so \<open>or()\<close> is false).
\<close>

theorem and_or_semantics:
  "evaluate (and_rule rules) context = (\<forall>r\<in>set rules. evaluate r context)
   \<and> evaluate (or_rule rules) context = (\<exists>r\<in>set rules. evaluate r context)"
  by (simp add: and_rule_def or_rule_def list_all_iff list_ex_iff)

theorem and_or_semantics_witness:
  "evaluate (and_rule [isAuthenticated, hasRole ''owner'']) (exampleContext [])
   \<and> evaluate (or_rule [hasRole ''master'', hasRole ''owner'']) (exampleContext [])
   \<and> \<not> evaluate (and_rule [isAuthenticated, hasRole ''master'']) (exampleContext [])
   \<and> \<not> evaluate (or_rule [hasRole ''master'', hasFeature ''beta'']) (exampleContext [])"
  using and_or_semantics [of "[isAuthenticated, hasRole ''owner'']" "exampleContext []"]
    and_or_semantics [of "[hasRole ''master'', hasRole ''owner'']" "exampleContext []"]
    and_or_semantics [of "[isAuthenticated, hasRole ''master'']" "exampleContext []"]
    and_or_semantics [of "[hasRole ''master'', hasFeature ''beta'']" "exampleContext []"]
  by (simp add: isAuthenticated_def hasRole_def hasFeature_def exampleContext_def)

section \<open>Access guard: the decision\<close>

text \<open>
  C2, as stated, fails: with the identity holding \<open>blog.create\<close> and the route requiring
  \<open>blog.*\<close>, the guard answers \<open>Forbidden\<close> although \<open>matchPermission\<close> accepts the
  token. The guard tests plain membership.
\<close>

theorem Secured_wildcard_counterexample:
  "Secured (useAuth \<lparr>user = Some (exampleUser ''master'' [''blog.create''] []),
                      isLoading = False, auth_trace = []\<rparr>)
     (Some True) (Some [''blog.*'']) None = Forbidden
   \<and> matchPermission (u_permissions (exampleUser ''master'' [''blog.create''] [])) ''blog.*''"
  by (simp add: Secured_def useAuth_def exampleUser_def matchPermission_def arr_includes_def
      endsWith_def slice_end_def startsWith_def)

text \<open>
  C2, amended. For every guard input with an authenticated identity (session settled,
  identity held), an authentication requirement other than \<open>false\<close> and a non-empty list
  of required permissions, the guard returns \<open>Forbidden\<close> iff no required token is
  contained verbatim in the identity's permissions (exact membership, OR-combined over
  the required tokens; a token ending in \<open>.*\<close> is not treated as a wildcard). This agrees
  with OR-ing \<open>matchPermission\<close> over the required tokens whenever none of them ends in
  \<open>.*\<close>.
\<close>

theorem Secured_forbidden_iff_exact:
  assumes "sessionState s = Authenticated u"
    and "authenticated \<noteq> Some False"
    and "ps \<noteq> []"
  shows "(Secured (useAuth s) authenticated (Some ps) features = Forbidden
            \<longleftrightarrow> \<not> (\<exists>p\<in>set ps. p \<in> set (u_permissions u)))
       \<and> ((\<forall>p\<in>set ps. \<not> endsWith p ''.*'') \<longrightarrow>
            (Secured (useAuth s) authenticated (Some ps) features = Forbidden
              \<longleftrightarrow> \<not> (\<exists>p\<in>set ps. matchPermission (u_permissions u) p)))"
proof -
  from assms(1) have settled: "\<not> isLoading s" and held: "user s = Some u"
    by (auto simp: sessionState_def split: if_splits option.splits)
  have exact: "Secured (useAuth s) authenticated (Some ps) features = Forbidden
            \<longleftrightarrow> \<not> (\<exists>p\<in>set ps. p \<in> set (u_permissions u))"
    using settled held assms(2,3)
    by (simp add: Secured_def useAuth_def arr_includes_def list_ex_iff)
  moreover have "(\<exists>p\<in>set ps. matchPermission (u_permissions u) p)
            \<longleftrightarrow> (\<exists>p\<in>set ps. p \<in> set (u_permissions u))"
    if "\<forall>p\<in>set ps. \<not> endsWith p ''.*''"
    using that by (simp add: matchPermission_no_wildcard)
  ultimately show ?thesis by simp
qed

theorem Secured_forbidden_iff_exact_witness:
  "sessionState \<lparr>user = Some (exampleUser ''master'' [''blog.view''] []),
                 isLoading = False, auth_trace = []\<rparr>
     = Authenticated (exampleUser ''master'' [''blog.view''] [])
   \<and> Some True \<noteq> Some False \<and> [''blog.create''] \<noteq> []
   \<and> \<not> endsWith ''blog.create'' ''.*''
   \<and> Secured (useAuth \<lparr>user = Some (exampleUser ''master'' [''blog.view''] []),
                        isLoading = False, auth_trace = []\<rparr>)
        (Some True) (Some [''blog.create'']) None = Forbidden
   \<and> \<not> matchPermission (u_permissions (exampleUser ''master'' [''blog.view''] [])) ''blog.create''"
proof -
  let ?u = "exampleUser ''master'' [''blog.view''] []"
  let ?s = "\<lparr>user = Some ?u, isLoading = False, auth_trace = []\<rparr>"
  have h1: "sessionState ?s = Authenticated ?u" by (simp add: sessionState_def)
  have h2: "Some True \<noteq> Some False" by simp
  have h3: "[''blog.create''] \<noteq> []" by simp
  have h4: "\<forall>p\<in>set [''blog.create'']. \<not> endsWith p ''.*''" by (simp add: endsWith_def)
  have perms: "u_permissions ?u = [''blog.view'']" by (simp add: exampleUser_def)
  show ?thesis
    using Secured_forbidden_iff_exact [OF h1 h2 h3, of None] h1 h4
    by (auto simp: perms)
qed

text \<open>
  C3. Whatever the requirements, the guard returns \<open>Pending\<close> whenever the session is
  still being verified (loading), and only then; when it is not, the rules are tried in
  the order \<open>RedirectToLogin\<close>, \<open>RedirectToHome\<close>, \<open>Forbidden\<close>, \<open>Allow\<close>, the first
  that applies giving the decision.
\<close>

theorem Secured_decision_order:
  "Secured (useAuth s) authenticated permissions features =
     (if isLoading s then Pending
      else if authenticated = Some True \<and> user s = None then RedirectToLogin
      else if authenticated = Some False \<and> user s \<noteq> None then RedirectToHome
      else if (\<exists>u ps. user s = Some u \<and> permissions = Some ps \<and> ps \<noteq> []
                 \<and> (\<forall>p\<in>set ps. p \<notin> set (u_permissions u))) then Forbidden
      else Allow)
   \<and> (Secured (useAuth s) authenticated permissions features = Pending \<longleftrightarrow> isLoading s)"
  by (auto simp: Secured_def useAuth_def arr_includes_def list_ex_iff Let_def
      split: option.splits)

text \<open>
  C9, as stated, fails: when the provider mounts no identity is held and the session is
  being verified; with no authentication requirement the guard shows the loader, not the
  protected content.
\<close>

theorem Secured_anonymous_loading_counterexample:
  "user initialAuth = None
   \<and> Secured (useAuth initialAuth) None (Some [''blog.view'']) None = Pending
   \<and> Secured (useAuth initialAuth) None (Some [''blog.view'']) None \<noteq> Allow"
  by (simp add: Secured_def useAuth_def initialAuth_def)

text \<open>
  C9, amended. For every guard input where the session has settled with no identity
  held (anonymous) and the authentication requirement is not \<open>true\<close> (absent or
  \<open>false\<close>), the guard renders the protected content, whatever the required
  permissions: the permission test runs only when an identity is present.
\<close>

theorem Secured_anonymous_allowed:
  assumes "sessionState s = Anonymous" and "authenticated \<noteq> Some True"
  shows "Secured (useAuth s) authenticated permissions features = Allow"
proof -
  from assms(1) have "\<not> isLoading s" and "user s = None"
    by (auto simp: sessionState_def split: if_splits option.splits)
  with assms(2) show ?thesis
    by (simp add: Secured_def useAuth_def split: option.splits)
qed

theorem Secured_anonymous_allowed_witness:
  "sessionState \<lparr>user = None, isLoading = False, auth_trace = []\<rparr> = Anonymous
   \<and> (None :: bool option) \<noteq> Some True
   \<and> Secured (useAuth \<lparr>user = None, isLoading = False, auth_trace = []\<rparr>)
       None (Some [''blog.view'']) None = Allow"
proof -
  have h1: "sessionState \<lparr>user = None, isLoading = False, auth_trace = []\<rparr> = Anonymous"
    by (simp add: sessionState_def)
  have h2: "(None :: bool option) \<noteq> Some True" by simp
  show ?thesis
    using Secured_anonymous_allowed [OF h1 h2, of "Some [''blog.view'']" None] h1 by simp
qed

text \<open>The literal cases of the guard's state table, one for each decision.\<close>

theorem Secured_decision_order_witness:
  "Secured (useAuth initialAuth) (Some True) (Some [''blog.create'']) None = Pending
   \<and> Secured (useAuth \<lparr>user = None, isLoading = False, auth_trace = []\<rparr>)
       (Some True) (Some [''blog.create'']) None = RedirectToLogin
   \<and> Secured (useAuth \<lparr>user = Some (exampleUser ''master'' [''blog.view''] []),
                        isLoading = False, auth_trace = []\<rparr>)
       (Some False) (Some [''blog.create'']) None = RedirectToHome
   \<and> Secured (useAuth \<lparr>user = Some (exampleUser ''master'' [''blog.view''] []),
                        isLoading = False, auth_trace = []\<rparr>)
       (Some True) (Some [''blog.create'']) None = Forbidden
   \<and> Secured (useAuth \<lparr>user = Some (exampleUser ''master'' [] []),
                        isLoading = False, auth_trace = []\<rparr>)
       (Some True) None None = Allow"
  using Secured_decision_order [of initialAuth "Some True" "Some [''blog.create'']" None]
    Secured_decision_order [of "\<lparr>user = None, isLoading = False, auth_trace = []\<rparr>"
      "Some True" "Some [''blog.create'']" None]
    Secured_decision_order [of "\<lparr>user = Some (exampleUser ''master'' [''blog.view''] []),
      isLoading = False, auth_trace = []\<rparr>" "Some False" "Some [''blog.create'']" None]
    Secured_decision_order [of "\<lparr>user = Some (exampleUser ''master'' [''blog.view''] []),
      isLoading = False, auth_trace = []\<rparr>" "Some True" "Some [''blog.create'']" None]
    Secured_decision_order [of "\<lparr>user = Some (exampleUser ''master'' [] []),
      isLoading = False, auth_trace = []\<rparr>" "Some True" None None]
  by (simp add: initialAuth_def exampleUser_def)

section \<open>Session manager: verification and logout\<close>







text \<open>
  C8, as stated, fails: \<open>logout\<close> does not touch the loading flag. Invoked while the
  session is still being verified (the initial state; the layout shows the logout
  control outside the guard), it leaves the session \<open>Verifying\<close>, not \<open>Anonymous\<close>.
\<close>

theorem logout_while_verifying_counterexample:
  "sessionState initialAuth = Verifying
   \<and> sessionState (logout (Inl (AxiosError None)) initialAuth) = Verifying
   \<and> sessionState (logout (Inl (AxiosError None)) initialAuth) \<noteq> Anonymous"
  by (simp add: logout_def sessionState_def initialAuth_def)

text \<open>
  C8, amended. Whether the remote logout call succeeds or fails, \<open>logout\<close> clears the
  identity: afterwards no identity is held and the published \<open>isAuthenticated\<close> is
  false, so a failure of the call never leaves a stale identity. The loading flag is
  untouched: the session is \<open>Anonymous\<close> afterwards when it had settled, and still
  \<open>Verifying\<close> when it had not.
\<close>

theorem logout_clears_user:
  "user (logout response s) = None
   \<and> \<not> cv_isAuthenticated (useAuth (logout response s))
   \<and> isLoading (logout response s) = isLoading s
   \<and> (\<not> isLoading s \<longrightarrow> sessionState (logout response s) = Anonymous)
   \<and> (isLoading s \<longrightarrow> sessionState (logout response s) = Verifying)"
  by (simp add: logout_def useAuth_def sessionState_def Let_def split: sum.splits)

theorem logout_clears_user_witness:
  "\<not> isLoading \<lparr>user = Some (exampleUser ''owner'' [] []), isLoading = False, auth_trace = []\<rparr>
   \<and> sessionState (logout (Inl (AxiosError None))
        \<lparr>user = Some (exampleUser ''owner'' [] []), isLoading = False, auth_trace = []\<rparr>)
     = Anonymous
   \<and> sessionState (logout (Inr ())
        \<lparr>user = Some (exampleUser ''owner'' [] []), isLoading = False, auth_trace = []\<rparr>)
     = Anonymous
   \<and> isLoading \<lparr>user = Some (exampleUser ''owner'' [] []), isLoading = True, auth_trace = []\<rparr>
   \<and> sessionState (logout (Inl (AxiosError None))
        \<lparr>user = Some (exampleUser ''owner'' [] []), isLoading = True, auth_trace = []\<rparr>)
     = Verifying
   \<and> user (logout (Inl (AxiosError None))
        \<lparr>user = Some (exampleUser ''owner'' [] []), isLoading = True, auth_trace = []\<rparr>)
     = None"
  using logout_clears_user [of "Inl (AxiosError None)"
      "\<lparr>user = Some (exampleUser ''owner'' [] []), isLoading = False, auth_trace = []\<rparr>"]
    logout_clears_user [of "Inr ()"
      "\<lparr>user = Some (exampleUser ''owner'' [] []), isLoading = False, auth_trace = []\<rparr>"]
    logout_clears_user [of "Inl (AxiosError None)"
      "\<lparr>user = Some (exampleUser ''owner'' [] []), isLoading = True, auth_trace = []\<rparr>"]
  by simp

section \<open>Tenant selector: resolution of the active company\<close>

lemma trim_Nil: "trim [] = []"
  by (simp add: trim_def)

lemma find_None_ids: "(find (\<lambda>c. c_id c = x) cs = None) = (x \<notin> c_id ` set cs)"
  by (auto simp: find_None_iff)

lemma fetchCompanies_list_branch:
  assumes "u_role u \<noteq> ''team_member''" and "u_companies u = m # ms" and "uc_id m \<noteq> []"
  shows "fetchCompanies env (Some u) w =
           (fetchList env u (uc_id m) (w\<lparr>cs_isLoading := True\<rparr>))\<lparr>cs_isLoading := False\<rparr>"
  using assms by (simp add: fetchCompanies_def truthy_def)

lemma fetchCompanies_assigned_branch:
  assumes "u_role u = ''team_member''" and "u_companies u = m # ms" and "uc_id m \<noteq> []"
  shows "fetchCompanies env (Some u) w =
           (fetchAssigned env u (uc_id m) (w\<lparr>cs_isLoading := True\<rparr>))\<lparr>cs_isLoading := False\<rparr>"
  using assms by (simp add: fetchCompanies_def truthy_def)

lemma fetchCompanies_no_membership:
  assumes "\<not> truthy (case u_companies u of c # _ \<Rightarrow> Some (uc_id c) | [] \<Rightarrow> None)"
  shows "fetchCompanies env (Some u) w =
           w\<lparr>companies := [], selectedCompany := None, cs_isLoading := False\<rparr>"
  using assms by (simp add: fetchCompanies_def)

lemma fetchList_default:
  assumes "company_list env = Inr cs"
    and "\<forall>sel. selectedCompany w = Some sel \<longrightarrow> c_id sel \<notin> c_id ` set cs"
    and "localStorage w SELECTED_COMPANY_STORAGE_KEY = None"
  shows "fetchList env u cid w =
           applyDefault (defaultCompany env cs cid)
             (logEffect (GetItem SELECTED_COMPANY_STORAGE_KEY)
               ((logEffect (HttpGet url_company_list) w)\<lparr>companies := cs\<rparr>))"
proof (cases "selectedCompany w")
  case None
  with assms(1,3) show ?thesis
    by (simp add: fetchList_def logEffect_def Let_def)
next
  case (Some sel)
  with assms(2) have "find (\<lambda>c. c_id c = c_id sel) cs = None"
    by (simp add: find_None_ids)
  with Some assms(1,3) show ?thesis
    by (simp add: fetchList_def logEffect_def Let_def)
qed

lemma fetchList_stale:
  assumes "company_list env = Inr cs"
    and "\<forall>sel. selectedCompany w = Some sel \<longrightarrow> c_id sel \<notin> c_id ` set cs"
    and "localStorage w SELECTED_COMPANY_STORAGE_KEY = Some sid"
    and "trim sid \<noteq> []" and "trim sid \<notin> c_id ` set cs"
  shows "fetchList env u cid w =
           applyDefault (defaultCompany env cs cid)
             (removeItem SELECTED_COMPANY_STORAGE_KEY
               (logEffect (GetItem SELECTED_COMPANY_STORAGE_KEY)
                 ((logEffect (HttpGet url_company_list) w)\<lparr>companies := cs\<rparr>)))"
proof -
  from assms(4) have ne: "sid \<noteq> []" using trim_Nil by auto
  from assms(5) have nf: "find (\<lambda>c. c_id c = trim sid) cs = None"
    by (simp add: find_None_ids)
  show ?thesis
  proof (cases "selectedCompany w")
    case None
    with assms(1,3,4) ne nf show ?thesis
      by (simp add: fetchList_def logEffect_def Let_def)
  next
    case (Some sel)
    with assms(2) have "find (\<lambda>c. c_id c = c_id sel) cs = None"
      by (simp add: find_None_ids)
    with Some assms(1,3,4) ne nf show ?thesis
      by (simp add: fetchList_def logEffect_def Let_def)
  qed
qed

lemma defaultCompany_membership:
  "cid \<noteq> [] \<Longrightarrow> find (\<lambda>c. c_id c = cid) cs = Some t \<Longrightarrow> defaultCompany env cs cid = Some t"
  by (simp add: defaultCompany_def)

text \<open>
  C4. For an identity of a role other than \<open>team_member\<close> whose first membership (with
  a non-empty id, so that the list is fetched) is the id of a company of the fetched
  list, with no entry in persisted storage and no company selected in memory, the active
  company becomes that company (the first of the list with that id) and its id is
  persisted; the earliest-created company of the list plays no part.
\<close>

theorem fetchCompanies_membership_before_earliest:
  assumes "u_role u \<noteq> ''team_member''" and "u_companies u = m # ms" and "uc_id m \<noteq> []"
    and "company_list env = Inr cs"
    and "find (\<lambda>c. c_id c = uc_id m) cs = Some t"
    and "selectedCompany w = None"
    and "localStorage w SELECTED_COMPANY_STORAGE_KEY = None"
  shows "selectedCompany (fetchCompanies env (Some u) w) = Some t
       \<and> c_id t = uc_id m
       \<and> localStorage (fetchCompanies env (Some u) w) SELECTED_COMPANY_STORAGE_KEY = Some (c_id t)
       \<and> companies (fetchCompanies env (Some u) w) = cs"
proof -
  let ?wL = "w\<lparr>cs_isLoading := True\<rparr>"
  have none: "\<forall>sel. selectedCompany ?wL = Some sel \<longrightarrow> c_id sel \<notin> c_id ` set cs"
    using assms(6) by simp
  have st: "localStorage ?wL SELECTED_COMPANY_STORAGE_KEY = None"
    using assms(7) by simp
  have d: "defaultCompany env cs (uc_id m) = Some t"
    using assms(3,5) by (rule defaultCompany_membership)
  have run: "fetchCompanies env (Some u) w =
      (applyDefault (Some t)
         (logEffect (GetItem SELECTED_COMPANY_STORAGE_KEY)
            ((logEffect (HttpGet url_company_list) ?wL)\<lparr>companies := cs\<rparr>)))\<lparr>cs_isLoading := False\<rparr>"
    using fetchCompanies_list_branch [OF assms(1,2,3)] fetchList_default [OF assms(4) none st] d
    by simp
  have idt: "c_id t = uc_id m"
    using assms(5) by (auto simp: find_Some_iff)
  show ?thesis
    by (simp add: run idt applyDefault_def setItem_def logEffect_def)
qed

lemma issued_append: "trace w' = trace w @ es \<Longrightarrow> issued w w' = es"
  by (simp add: issued_def)

text \<open>
  The scenario of the specification: membership \<open>b\<close>, fetched list \<open>a\<close> (created
  2024-01-01) and \<open>b\<close> (created 2024-02-01), storage empty. The selected id is \<open>b\<close>,
  although \<open>a\<close> is the earliest-created.
\<close>

theorem fetchCompanies_membership_before_earliest_witness:
  "u_role (exampleUser ''master'' [] [exampleMembership ''b'']) \<noteq> ''team_member''
   \<and> uc_id (exampleMembership ''b'') \<noteq> []
   \<and> find (\<lambda>c. c_id c = uc_id (exampleMembership ''b''))
        [exampleCompany ''a'' ''2024-01-01'', exampleCompany ''b'' ''2024-02-01'']
      = Some (exampleCompany ''b'' ''2024-02-01'')
   \<and> map_option c_id (selectedCompany
        (fetchCompanies
           (exampleEnv [exampleCompany ''a'' ''2024-01-01'', exampleCompany ''b'' ''2024-02-01''])
           (Some (exampleUser ''master'' [] [exampleMembership ''b'']))
           (initialCompanyState Map.empty))) = Some ''b''
   \<and> map c_id (array_sort
          (exampleEnv [exampleCompany ''a'' ''2024-01-01'', exampleCompany ''b'' ''2024-02-01''])
          (compareCreated exampleDates)
          [exampleCompany ''a'' ''2024-01-01'', exampleCompany ''b'' ''2024-02-01'']) = [''a'', ''b'']"
proof -
  let ?u = "exampleUser ''master'' [] [exampleMembership ''b'']"
  let ?cs = "[exampleCompany ''a'' ''2024-01-01'', exampleCompany ''b'' ''2024-02-01'']"
  have h1: "u_role ?u \<noteq> ''team_member''" by (simp add: exampleUser_def)
  have h2: "u_companies ?u = exampleMembership ''b'' # []" by (simp add: exampleUser_def)
  have h3: "uc_id (exampleMembership ''b'') \<noteq> []" by (simp add: exampleMembership_def)
  have h4: "company_list (exampleEnv ?cs) = Inr ?cs" by (simp add: exampleEnv_def)
  have h5: "find (\<lambda>c. c_id c = uc_id (exampleMembership ''b'')) ?cs
              = Some (exampleCompany ''b'' ''2024-02-01'')"
    by (simp add: exampleMembership_def exampleCompany_def)
  have h6: "selectedCompany (initialCompanyState Map.empty) = None"
    by (simp add: initialCompanyState_def)
  have h7: "localStorage (initialCompanyState Map.empty) SELECTED_COMPANY_STORAGE_KEY = None"
    by (simp add: initialCompanyState_def)
  have sorted: "map c_id (array_sort (exampleEnv ?cs) (compareCreated exampleDates) ?cs)
                = [''a'', ''b'']"
    by (simp add: exampleEnv_def exampleSort_def compareCreated_def exampleDates_def
        exampleCompany_def)
  have idb: "c_id (exampleCompany ''b'' ''2024-02-01'') = ''b''"
    by (simp add: exampleCompany_def)
  show ?thesis
    using fetchCompanies_membership_before_earliest [OF h1 h2 h3 h4 h5 h6 h7] h1 h3 h5 sorted
    by (simp add: idb)
qed

lemma fetchList_restore:
  assumes "company_list env = Inr cs"
    and "\<forall>sel. selectedCompany w = Some sel \<longrightarrow> c_id sel \<notin> c_id ` set cs"
    and "localStorage w SELECTED_COMPANY_STORAGE_KEY = Some sid"
    and "trim sid \<noteq> []" and "find (\<lambda>c. c_id c = trim sid) cs = Some t"
  shows "fetchList env u cid w =
           (setItem SELECTED_COMPANY_STORAGE_KEY (c_id t)
              ((logEffect (GetItem SELECTED_COMPANY_STORAGE_KEY)
                 ((logEffect (HttpGet url_company_list) w)\<lparr>companies := cs\<rparr>))
               \<lparr>selectedCompany := Some t\<rparr>))\<lparr>cs_isLoading := False\<rparr>"
proof -
  from assms(4) have ne: "sid \<noteq> []" using trim_Nil by auto
  show ?thesis
  proof (cases "selectedCompany w")
    case None
    with assms(1,3,4,5) ne show ?thesis
      by (simp add: fetchList_def logEffect_def Let_def)
  next
    case (Some sel)
    with assms(2) have "find (\<lambda>c. c_id c = c_id sel) cs = None"
      by (simp add: find_None_ids)
    with Some assms(1,3,4,5) ne show ?thesis
      by (simp add: fetchList_def logEffect_def Let_def)
  qed
qed

lemma fetchList_blank:
  assumes "company_list env = Inr cs"
    and "\<forall>sel. selectedCompany w = Some sel \<longrightarrow> c_id sel \<notin> c_id ` set cs"
    and "localStorage w SELECTED_COMPANY_STORAGE_KEY = Some sid"
    and "trim sid = []"
  shows "fetchList env u cid w =
           applyDefault (defaultCompany env cs cid)
             (logEffect (GetItem SELECTED_COMPANY_STORAGE_KEY)
               ((logEffect (HttpGet url_company_list) w)\<lparr>companies := cs\<rparr>))"
proof (cases "selectedCompany w")
  case None
  with assms(1,3,4) show ?thesis
    by (simp add: fetchList_def logEffect_def Let_def)
next
  case (Some sel)
  with assms(2) have "find (\<lambda>c. c_id c = c_id sel) cs = None"
    by (simp add: find_None_ids)
  with Some assms(1,3,4) show ?thesis
    by (simp add: fetchList_def logEffect_def Let_def)
qed

lemma defaultCompany_earliest:
  assumes "find (\<lambda>c. c_id c = cid) cs = None" and "cs \<noteq> []"
    and "sortedOutput (compareCreated (date_getTime env)) cs
           (array_sort env (compareCreated (date_getTime env)) cs)"
    and "list_all (\<lambda>c. date_getTime env (c_created_at c) \<noteq> None) cs"
  shows "\<exists>c. defaultCompany env cs cid = Some c \<and> earliestCreated (date_getTime env) cs c"
proof -
  let ?ys = "array_sort env (compareCreated (date_getTime env)) cs"
  from assms(3) have same: "set ?ys = set cs" and len: "length ?ys = length cs"
    and ord: "sorted_wrt (\<lambda>a b. case compareCreated (date_getTime env) b a of
                                  Some d \<Rightarrow> 0 \<le> d | None \<Rightarrow> True) ?ys"
    by (simp_all add: sortedOutput_def)
  from len assms(2) obtain c rest where ys: "?ys = c # rest"
    by (cases ?ys) auto
  have d: "defaultCompany env cs cid = Some c"
    using assms(1,2) ys by (simp add: defaultCompany_def)
  have mem: "c \<in> set cs"
    using same ys by auto
  from assms(4) have parses: "\<And>x. x \<in> set cs \<Longrightarrow> \<exists>t. date_getTime env (c_created_at x) = Some t"
    by (auto simp: list_all_iff)
  from parses [OF mem] obtain tc where tc: "date_getTime env (c_created_at c) = Some tc" ..
  have least: "tc \<le> tx" if "x \<in> set cs" and "date_getTime env (c_created_at x) = Some tx" for x tx
  proof (cases "x \<in> set rest")
    case True
    with ord ys have "case compareCreated (date_getTime env) x c of
                        Some d \<Rightarrow> 0 \<le> d | None \<Rightarrow> True"
      by auto
    with tc that(2) show ?thesis
      by (simp add: compareCreated_def)
  next
    case False
    with that(1) same ys have "x = c" by auto
    with tc that(2) show ?thesis by simp
  qed
  have "list_all (\<lambda>x. case (date_getTime env (c_created_at c), date_getTime env (c_created_at x)) of
                         (Some tc, Some tx) \<Rightarrow> tc \<le> tx
                       | _ \<Rightarrow> False) cs"
    unfolding list_all_iff
  proof
    fix x assume x: "x \<in> set cs"
    from parses [OF x] obtain tx where tx: "date_getTime env (c_created_at x) = Some tx" ..
    from least [OF x tx] show "case (date_getTime env (c_created_at c), date_getTime env (c_created_at x)) of
                         (Some tc, Some tx) \<Rightarrow> tc \<le> tx
                       | _ \<Rightarrow> False"
      by (simp add: tc tx)
  qed
  with mem have "earliestCreated (date_getTime env) cs c"
    by (simp add: earliestCreated_def)
  with d show ?thesis by blast
qed

text \<open>
  C7, as stated, fails: the persisted value is trimmed before it is looked up. With the
  persisted value \<open>b\<close> preceded by a space, which is the id of no company of the fetched
  list \<open>a\<close>, \<open>b\<close>, and membership \<open>a\<close>, the entry is not removed and company \<open>b\<close> is
  selected, while with no persisted entry company \<open>a\<close> is.
\<close>

theorem fetchCompanies_padded_saved_id_counterexample:
  "'' b'' \<notin> set (map c_id [exampleCompany ''a'' ''2024-01-01'', exampleCompany ''b'' ''2024-02-01''])
   \<and> map_option c_id (selectedCompany
        (fetchCompanies
           (exampleEnv [exampleCompany ''a'' ''2024-01-01'', exampleCompany ''b'' ''2024-02-01''])
           (Some (exampleUser ''master'' [] [exampleMembership ''a'']))
           (initialCompanyState [''csid'' \<mapsto> '' b'']))) = Some ''b''
   \<and> map_option c_id (selectedCompany
        (fetchCompanies
           (exampleEnv [exampleCompany ''a'' ''2024-01-01'', exampleCompany ''b'' ''2024-02-01''])
           (Some (exampleUser ''master'' [] [exampleMembership ''a'']))
           (initialCompanyState Map.empty))) = Some ''a''
   \<and> trace (fetchCompanies
           (exampleEnv [exampleCompany ''a'' ''2024-01-01'', exampleCompany ''b'' ''2024-02-01''])
           (Some (exampleUser ''master'' [] [exampleMembership ''a'']))
           (initialCompanyState [''csid'' \<mapsto> '' b'']))
       = [HttpGet ''/companies'', GetItem ''csid'', SetItem ''csid'' ''b'']"
  by (simp add: fetchCompanies_def fetchList_def defaultCompany_def applyDefault_def
      setItem_def removeItem_def logEffect_def truthy_def trim_def isWhiteSpace_def
      exampleEnv_def exampleUser_def exampleMembership_def exampleCompany_def
      initialCompanyState_def SELECTED_COMPANY_STORAGE_KEY_def url_company_list_def Let_def)

text \<open>
  C7, amended. Take an identity of a role other than \<open>team_member\<close> with a first
  membership of non-empty id, a fetched list, no in-memory selection that is still in the
  list, and a persisted value. The value is compared after trimming.

  If its trimmed form is non-empty and is the id of no company of the list, the run
  fetches the list, reads the entry, removes it, and only then persists the id of the
  default company if there is one; the selected company, the list and the final storage
  are those of the same run started with no persisted entry.

  If its trimmed form is the id of a company of the list, that company is restored and
  its id persisted, and nothing is removed.

  If its trimmed form is empty, the value is ignored and not removed: the run selects
  what the run with no persisted entry selects, and the entry stays unless the id of the
  default company overwrites it.

  The run with no persisted entry selects the default company when there is one, and
  persists its id. The default is the company of the first membership when the list has
  it; otherwise, when the list is not empty, every creation date parses and the host
  returns a sorted arrangement of the list, it is a company created earliest.
\<close>

theorem fetchCompanies_saved_id_resolution:
  assumes "u_role u \<noteq> ''team_member''" and "u_companies u = m # ms" and "uc_id m \<noteq> []"
    and "company_list env = Inr cs"
    and "\<forall>sel. selectedCompany w = Some sel \<longrightarrow> c_id sel \<notin> c_id ` set cs"
    and "localStorage w SELECTED_COMPANY_STORAGE_KEY = Some sid"
    and "w' = fetchCompanies env (Some u) w"
    and "wn = fetchCompanies env (Some u) (withoutSaved w)"
    and "d = defaultCompany env cs (uc_id m)"
  shows "(trim sid \<noteq> [] \<and> trim sid \<notin> c_id ` set cs \<longrightarrow>
            issued w w' =
              [HttpGet url_company_list, GetItem SELECTED_COMPANY_STORAGE_KEY,
               RemoveItem SELECTED_COMPANY_STORAGE_KEY] @
              (case d of Some c \<Rightarrow> [SetItem SELECTED_COMPANY_STORAGE_KEY (c_id c)] | None \<Rightarrow> [])
            \<and> selectedCompany w' = selectedCompany wn
            \<and> companies w' = companies wn
            \<and> localStorage w' = localStorage wn)
       \<and> (\<forall>t. trim sid \<noteq> [] \<and> find (\<lambda>c. c_id c = trim sid) cs = Some t \<longrightarrow>
            issued w w' =
              [HttpGet url_company_list, GetItem SELECTED_COMPANY_STORAGE_KEY,
               SetItem SELECTED_COMPANY_STORAGE_KEY (c_id t)]
            \<and> selectedCompany w' = Some t
            \<and> companies w' = cs
            \<and> localStorage w' SELECTED_COMPANY_STORAGE_KEY = Some (c_id t))
       \<and> (trim sid = [] \<longrightarrow>
            issued w w' =
              [HttpGet url_company_list, GetItem SELECTED_COMPANY_STORAGE_KEY] @
              (case d of Some c \<Rightarrow> [SetItem SELECTED_COMPANY_STORAGE_KEY (c_id c)] | None \<Rightarrow> [])
            \<and> selectedCompany w' = selectedCompany wn
            \<and> companies w' = companies wn
            \<and> localStorage w' SELECTED_COMPANY_STORAGE_KEY =
                (case d of Some c \<Rightarrow> Some (c_id c) | None \<Rightarrow> Some sid))
       \<and> selectedCompany wn = (case d of Some c \<Rightarrow> Some c | None \<Rightarrow> selectedCompany w)
       \<and> localStorage wn SELECTED_COMPANY_STORAGE_KEY = map_option c_id d
       \<and> (\<forall>t. find (\<lambda>c. c_id c = uc_id m) cs = Some t \<longrightarrow> d = Some t)
       \<and> (find (\<lambda>c. c_id c = uc_id m) cs = None \<and> cs \<noteq> []
            \<and> sortedOutput (compareCreated (date_getTime env)) cs
                 (array_sort env (compareCreated (date_getTime env)) cs)
            \<and> list_all (\<lambda>c. date_getTime env (c_created_at c) \<noteq> None) cs \<longrightarrow>
            (\<exists>c. d = Some c \<and> earliestCreated (date_getTime env) cs c))"
proof -
  let ?K = SELECTED_COMPANY_STORAGE_KEY
  let ?wL = "w\<lparr>cs_isLoading := True\<rparr>"
  let ?vL = "(withoutSaved w)\<lparr>cs_isLoading := True\<rparr>"
  let ?fetched = "\<lambda>v. logEffect (GetItem ?K) ((logEffect (HttpGet url_company_list) v)\<lparr>companies := cs\<rparr>)"
  have selL: "\<forall>sel. selectedCompany ?wL = Some sel \<longrightarrow> c_id sel \<notin> c_id ` set cs"
    using assms(5) by simp
  have stL: "localStorage ?wL ?K = Some sid"
    using assms(6) by simp
  have selN: "\<forall>sel. selectedCompany ?vL = Some sel \<longrightarrow> c_id sel \<notin> c_id ` set cs"
    using assms(5) by (simp add: withoutSaved_def)
  have stN: "localStorage ?vL ?K = None"
    by (simp add: withoutSaved_def)
  have dd: "defaultCompany env cs (uc_id m) = d"
    using assms(9) by simp
  have runN: "wn = (applyDefault d (?fetched ?vL))\<lparr>cs_isLoading := False\<rparr>"
    using fetchCompanies_list_branch [OF assms(1,2,3), of env "withoutSaved w"]
      fetchList_default [OF assms(4) selN stN, of u "uc_id m"]
    by (simp add: assms(8) dd)
  have stale: "issued w w' =
              [HttpGet url_company_list, GetItem ?K, RemoveItem ?K] @
              (case d of Some c \<Rightarrow> [SetItem ?K (c_id c)] | None \<Rightarrow> [])
            \<and> selectedCompany w' = selectedCompany wn
            \<and> companies w' = companies wn
            \<and> localStorage w' = localStorage wn"
    if t1: "trim sid \<noteq> []" and t2: "trim sid \<notin> c_id ` set cs"
  proof -
    have run: "w' = (applyDefault d (removeItem ?K (?fetched ?wL)))\<lparr>cs_isLoading := False\<rparr>"
      using fetchCompanies_list_branch [OF assms(1,2,3), of env w]
        fetchList_stale [OF assms(4) selL stL t1 t2, of u "uc_id m"]
      by (simp add: assms(7) dd)
    have tr: "trace w' = trace w @ ([HttpGet url_company_list, GetItem ?K, RemoveItem ?K] @
        (case d of Some c \<Rightarrow> [SetItem ?K (c_id c)] | None \<Rightarrow> []))"
      by (simp add: run applyDefault_def setItem_def removeItem_def logEffect_def
          split: option.splits)
    have c1: "issued w w' = [HttpGet url_company_list, GetItem ?K, RemoveItem ?K] @
        (case d of Some c \<Rightarrow> [SetItem ?K (c_id c)] | None \<Rightarrow> [])"
      using tr by (rule issued_append)
    have c2: "selectedCompany w' = selectedCompany wn"
      by (simp add: run runN applyDefault_def setItem_def removeItem_def logEffect_def
          withoutSaved_def split: option.splits)
    have c3: "companies w' = companies wn"
      by (simp add: run runN applyDefault_def setItem_def removeItem_def logEffect_def
          withoutSaved_def split: option.splits)
    have c4: "localStorage w' = localStorage wn"
      by (simp add: run runN applyDefault_def setItem_def removeItem_def logEffect_def
          withoutSaved_def split: option.splits)
    from c1 c2 c3 c4 show ?thesis by blast
  qed
  have restore: "issued w w' = [HttpGet url_company_list, GetItem ?K, SetItem ?K (c_id t)]
            \<and> selectedCompany w' = Some t
            \<and> companies w' = cs
            \<and> localStorage w' ?K = Some (c_id t)"
    if t1: "trim sid \<noteq> []" and t2: "find (\<lambda>c. c_id c = trim sid) cs = Some t" for t
  proof -
    have run: "w' = (setItem ?K (c_id t) ((?fetched ?wL)\<lparr>selectedCompany := Some t\<rparr>))
                      \<lparr>cs_isLoading := False\<rparr>"
      using fetchCompanies_list_branch [OF assms(1,2,3), of env w]
        fetchList_restore [OF assms(4) selL stL t1 t2, of u "uc_id m"]
      by (simp add: assms(7))
    have tr: "trace w' = trace w @ [HttpGet url_company_list, GetItem ?K, SetItem ?K (c_id t)]"
      by (simp add: run setItem_def logEffect_def)
    have c1: "issued w w' = [HttpGet url_company_list, GetItem ?K, SetItem ?K (c_id t)]"
      using tr by (rule issued_append)
    have c2: "selectedCompany w' = Some t \<and> companies w' = cs \<and> localStorage w' ?K = Some (c_id t)"
      by (simp add: run setItem_def logEffect_def)
    from c1 c2 show ?thesis by blast
  qed
  have blank: "issued w w' =
              [HttpGet url_company_list, GetItem ?K] @
              (case d of Some c \<Rightarrow> [SetItem ?K (c_id c)] | None \<Rightarrow> [])
            \<and> selectedCompany w' = selectedCompany wn
            \<and> companies w' = companies wn
            \<and> localStorage w' ?K = (case d of Some c \<Rightarrow> Some (c_id c) | None \<Rightarrow> Some sid)"
    if t1: "trim sid = []"
  proof -
    have run: "w' = (applyDefault d (?fetched ?wL))\<lparr>cs_isLoading := False\<rparr>"
      using fetchCompanies_list_branch [OF assms(1,2,3), of env w]
        fetchList_blank [OF assms(4) selL stL t1, of u "uc_id m"]
      by (simp add: assms(7) dd)
    have tr: "trace w' = trace w @ ([HttpGet url_company_list, GetItem ?K] @
        (case d of Some c \<Rightarrow> [SetItem ?K (c_id c)] | None \<Rightarrow> []))"
      by (simp add: run applyDefault_def setItem_def logEffect_def split: option.splits)
    have c1: "issued w w' = [HttpGet url_company_list, GetItem ?K] @
        (case d of Some c \<Rightarrow> [SetItem ?K (c_id c)] | None \<Rightarrow> [])"
      using tr by (rule issued_append)
    have c2: "selectedCompany w' = selectedCompany wn"
      by (simp add: run runN applyDefault_def setItem_def logEffect_def
          withoutSaved_def split: option.splits)
    have c3: "companies w' = companies wn"
      by (simp add: run runN applyDefault_def setItem_def logEffect_def
          withoutSaved_def split: option.splits)
    have c4: "localStorage w' ?K = (case d of Some c \<Rightarrow> Some (c_id c) | None \<Rightarrow> Some sid)"
      using assms(6)
      by (simp add: run applyDefault_def setItem_def logEffect_def split: option.splits)
    from c1 c2 c3 c4 show ?thesis by blast
  qed
  have fb1: "selectedCompany wn = (case d of Some c \<Rightarrow> Some c | None \<Rightarrow> selectedCompany w)"
    by (simp add: runN applyDefault_def setItem_def logEffect_def withoutSaved_def
        split: option.splits)
  have fb2: "localStorage wn ?K = map_option c_id d"
    by (simp add: runN applyDefault_def setItem_def logEffect_def withoutSaved_def
        split: option.splits)
  have first: "d = Some t" if "find (\<lambda>c. c_id c = uc_id m) cs = Some t" for t
    using defaultCompany_membership [OF assms(3) that, of env] by (simp add: dd)
  have earliest: "\<exists>c. d = Some c \<and> earliestCreated (date_getTime env) cs c"
    if "find (\<lambda>c. c_id c = uc_id m) cs = None" and "cs \<noteq> []"
      and "sortedOutput (compareCreated (date_getTime env)) cs
             (array_sort env (compareCreated (date_getTime env)) cs)"
      and "list_all (\<lambda>c. date_getTime env (c_created_at c) \<noteq> None) cs"
    using defaultCompany_earliest [OF that] by (simp add: dd)
  from stale restore blank fb1 fb2 first earliest show ?thesis by blast
qed

text \<open>
  Three runs over the list \<open>b\<close> (created 2024-02-01), \<open>a\<close> (created 2024-01-01) with the
  membership \<open>z\<close>, which is not listed: the persisted value \<open>gone\<close> is removed and the
  earliest-created \<open>a\<close> selected; the value \<open>b\<close> preceded by a space restores \<open>b\<close>; a
  value of two spaces is ignored, not removed, and overwritten by the id of \<open>a\<close>.
\<close>

theorem fetchCompanies_saved_id_resolution_witness:
  "issued (initialCompanyState [''csid'' \<mapsto> ''gone''])
        (fetchCompanies
           (exampleEnv [exampleCompany ''b'' ''2024-02-01'', exampleCompany ''a'' ''2024-01-01''])
           (Some (exampleUser ''master'' [] [exampleMembership ''z'']))
           (initialCompanyState [''csid'' \<mapsto> ''gone'']))
       = [HttpGet ''/companies'', GetItem ''csid'', RemoveItem ''csid'', SetItem ''csid'' ''a'']
   \<and> selectedCompany
        (fetchCompanies
           (exampleEnv [exampleCompany ''b'' ''2024-02-01'', exampleCompany ''a'' ''2024-01-01''])
           (Some (exampleUser ''master'' [] [exampleMembership ''z'']))
           (initialCompanyState [''csid'' \<mapsto> ''gone'']))
       = Some (exampleCompany ''a'' ''2024-01-01'')
   \<and> earliestCreated exampleDates
        [exampleCompany ''b'' ''2024-02-01'', exampleCompany ''a'' ''2024-01-01'']
        (exampleCompany ''a'' ''2024-01-01'')
   \<and> issued (initialCompanyState [''csid'' \<mapsto> '' b''])
        (fetchCompanies
           (exampleEnv [exampleCompany ''b'' ''2024-02-01'', exampleCompany ''a'' ''2024-01-01''])
           (Some (exampleUser ''master'' [] [exampleMembership ''z'']))
           (initialCompanyState [''csid'' \<mapsto> '' b'']))
       = [HttpGet ''/companies'', GetItem ''csid'', SetItem ''csid'' ''b'']
   \<and> selectedCompany
        (fetchCompanies
           (exampleEnv [exampleCompany ''b'' ''2024-02-01'', exampleCompany ''a'' ''2024-01-01''])
           (Some (exampleUser ''master'' [] [exampleMembership ''z'']))
           (initialCompanyState [''csid'' \<mapsto> '' b'']))
       = Some (exampleCompany ''b'' ''2024-02-01'')
   \<and> issued (initialCompanyState [''csid'' \<mapsto> ''  ''])
        (fetchCompanies
           (exampleEnv [exampleCompany ''b'' ''2024-02-01'', exampleCompany ''a'' ''2024-01-01''])
           (Some (exampleUser ''master'' [] [exampleMembership ''z'']))
           (initialCompanyState [''csid'' \<mapsto> ''  '']))
       = [HttpGet ''/companies'', GetItem ''csid'', SetItem ''csid'' ''a'']
   \<and> localStorage
        (fetchCompanies
           (exampleEnv [exampleCompany ''b'' ''2024-02-01'', exampleCompany ''a'' ''2024-01-01''])
           (Some (exampleUser ''master'' [] [exampleMembership ''z'']))
           (initialCompanyState [''csid'' \<mapsto> ''  ''])) ''csid''
       = Some ''a''"
proof -
  let ?u = "exampleUser ''master'' [] [exampleMembership ''z'']"
  let ?a = "exampleCompany ''a'' ''2024-01-01''"
  let ?b = "exampleCompany ''b'' ''2024-02-01''"
  let ?cs = "[?b, ?a]"
  let ?env = "exampleEnv ?cs"
  let ?stale = "initialCompanyState [''csid'' \<mapsto> ''gone'']"
  let ?padded = "initialCompanyState [''csid'' \<mapsto> '' b'']"
  let ?blank = "initialCompanyState [''csid'' \<mapsto> ''  '']"
  have key: "SELECTED_COMPANY_STORAGE_KEY = ''csid''"
    by (simp add: SELECTED_COMPANY_STORAGE_KEY_def)
  have url: "url_company_list = ''/companies''"
    by (simp add: url_company_list_def)
  have h1: "u_role ?u \<noteq> ''team_member''" by (simp add: exampleUser_def)
  have h2: "u_companies ?u = exampleMembership ''z'' # []" by (simp add: exampleUser_def)
  have h3: "uc_id (exampleMembership ''z'') \<noteq> []" by (simp add: exampleMembership_def)
  have h4: "company_list ?env = Inr ?cs" by (simp add: exampleEnv_def)
  have h5: "\<forall>sel. selectedCompany (initialCompanyState st) = Some sel \<longrightarrow> c_id sel \<notin> c_id ` set ?cs"
    for st by (simp add: initialCompanyState_def)
  have h6: "localStorage (initialCompanyState [''csid'' \<mapsto> v]) SELECTED_COMPANY_STORAGE_KEY = Some v"
    for v by (simp add: initialCompanyState_def key)
  have ida: "c_id ?a = ''a''" and idb: "c_id ?b = ''b''"
    by (simp_all add: exampleCompany_def)
  have nz: "find (\<lambda>c. c_id c = uc_id (exampleMembership ''z'')) ?cs = None"
    by (simp add: exampleMembership_def exampleCompany_def)
  have times: "date_getTime ?env = exampleDates"
    by (simp add: exampleEnv_def)
  have d: "defaultCompany ?env ?cs (uc_id (exampleMembership ''z'')) = Some ?a"
    by (simp add: defaultCompany_def exampleSort_def compareCreated_def exampleDates_def
        exampleEnv_def exampleCompany_def exampleMembership_def)
  have sorted: "sortedOutput (compareCreated (date_getTime ?env)) ?cs
                  (array_sort ?env (compareCreated (date_getTime ?env)) ?cs)"
    by (simp add: sortedOutput_def exampleSort_def compareCreated_def exampleDates_def
        exampleEnv_def exampleCompany_def insert_commute)
  have parse: "list_all (\<lambda>c. date_getTime ?env (c_created_at c) \<noteq> None) ?cs"
    by (simp add: exampleEnv_def exampleDates_def exampleCompany_def)
  have t_gone: "trim ''gone'' = ''gone''" and t_pad: "trim '' b'' = ''b''"
    and t_blank: "trim ''  '' = []"
    by (simp_all add: trim_def isWhiteSpace_def)
  note stale = fetchCompanies_saved_id_resolution
    [OF h1 h2 h3 h4 h5 [of "[''csid'' \<mapsto> ''gone'']"] h6 [of "''gone''"] refl refl refl]
  note padded = fetchCompanies_saved_id_resolution
    [OF h1 h2 h3 h4 h5 [of "[''csid'' \<mapsto> '' b'']"] h6 [of "'' b''"] refl refl refl]
  note blank = fetchCompanies_saved_id_resolution
    [OF h1 h2 h3 h4 h5 [of "[''csid'' \<mapsto> ''  '']"] h6 [of "''  ''"] refl refl refl]
  have s0: "trim ''gone'' \<noteq> [] \<and> trim ''gone'' \<notin> c_id ` set ?cs"
    by (simp add: t_gone exampleCompany_def)
  have c1: "issued ?stale (fetchCompanies ?env (Some ?u) ?stale)
      = [HttpGet ''/companies'', GetItem ''csid'', RemoveItem ''csid'', SetItem ''csid'' ''a'']"
    using stale [THEN conjunct1, rule_format, OF s0, THEN conjunct1]
    by (simp add: d ida key url)
  have c2: "selectedCompany (fetchCompanies ?env (Some ?u) ?stale) = Some ?a"
    using stale [THEN conjunct1, rule_format, OF s0, THEN conjunct2, THEN conjunct1]
      stale [THEN conjunct2, THEN conjunct2, THEN conjunct2, THEN conjunct1]
    by (simp add: d)
  have c3: "earliestCreated exampleDates ?cs ?a"
    using stale [THEN conjunct2, THEN conjunct2, THEN conjunct2, THEN conjunct2,
        THEN conjunct2, THEN conjunct2, rule_format, OF conjI [OF nz conjI [OF _ conjI [OF sorted parse]]]]
    by (simp add: d times)
  have p0: "trim '' b'' \<noteq> [] \<and> find (\<lambda>c. c_id c = trim '' b'') ?cs = Some ?b"
    by (simp add: t_pad exampleCompany_def)
  have c4: "issued ?padded (fetchCompanies ?env (Some ?u) ?padded)
        = [HttpGet ''/companies'', GetItem ''csid'', SetItem ''csid'' ''b'']
      \<and> selectedCompany (fetchCompanies ?env (Some ?u) ?padded) = Some ?b"
    using padded [THEN conjunct2, THEN conjunct1, rule_format, OF p0]
    by (simp add: idb key url)
  have c5: "issued ?blank (fetchCompanies ?env (Some ?u) ?blank)
        = [HttpGet ''/companies'', GetItem ''csid'', SetItem ''csid'' ''a'']
      \<and> localStorage (fetchCompanies ?env (Some ?u) ?blank) ''csid'' = Some ''a''"
    using blank [THEN conjunct2, THEN conjunct2, THEN conjunct1, rule_format, OF t_blank]
    by (simp add: d ida key url)
  from c1 c2 c3 c4 c5 show ?thesis by blast
qed

lemma issued_same: "trace w' = trace w \<Longrightarrow> issued w w' = []"
  by (simp add: issued_def)

lemma fetchAssigned_result:
  "fetchAssigned env u cid w =
     (case company_get env cid of
        Inr d \<Rightarrow>
          w\<lparr>companies := [d], selectedCompany := Some d,
            localStorage := (localStorage w)(SELECTED_COMPANY_STORAGE_KEY \<mapsto> c_id d),
            trace := trace w @ [HttpGet (url_company_get cid),
                                SetItem SELECTED_COMPANY_STORAGE_KEY (c_id d)]\<rparr>
      | Inl e \<Rightarrow>
          (case u_companies u of
             m # _ \<Rightarrow>
               w\<lparr>companies := [fallbackCompany u m], selectedCompany := Some (fallbackCompany u m),
                 localStorage := (localStorage w)(SELECTED_COMPANY_STORAGE_KEY \<mapsto> uc_id m),
                 trace := trace w @ [HttpGet (url_company_get cid),
                                     ConsoleError ''Failed to fetch company details:'',
                                     SetItem SELECTED_COMPANY_STORAGE_KEY (uc_id m)]\<rparr>
           | [] \<Rightarrow>
               w\<lparr>companies := [], selectedCompany := None,
                 trace := trace w @ [HttpGet (url_company_get cid),
                                     ConsoleError ''Failed to fetch company details:'',
                                     ConsoleError ''Failed to fetch companies:'']\<rparr>))"
  by (simp add: fetchAssigned_def fetchFailed_def setItem_def logEffect_def fallbackCompany_def
      Let_def split: sum.splits list.splits)

text \<open>
  C10, amended. For every identity whose role is \<open>team_member\<close>, resolution never reads
  the persisted entry: no \<open>getItem\<close> is issued and the outcome does not depend on the
  storage. If the identity has a first membership with a non-empty id, the active company
  is the company fetched by that id, or on fetch failure the minimal company built from
  the membership stub, and the persisted entry is overwritten with that company's id. If
  it has none, no company is selected, nothing is fetched and the persisted entry is left
  as it is.
\<close>

theorem fetchCompanies_team_member_resolution:
  assumes "u_role u = ''team_member''"
  shows "(\<forall>k. GetItem k \<notin> set (issued w (fetchCompanies env (Some u) w)))
       \<and> (\<forall>st. selectedCompany (fetchCompanies env (Some u) (w\<lparr>localStorage := st\<rparr>))
                 = selectedCompany (fetchCompanies env (Some u) w)
               \<and> companies (fetchCompanies env (Some u) (w\<lparr>localStorage := st\<rparr>))
                 = companies (fetchCompanies env (Some u) w))
       \<and> (\<forall>m ms. u_companies u = m # ms \<and> uc_id m \<noteq> [] \<longrightarrow>
             (case company_get env (uc_id m) of
                Inr d \<Rightarrow>
                  selectedCompany (fetchCompanies env (Some u) w) = Some d
                  \<and> companies (fetchCompanies env (Some u) w) = [d]
                  \<and> localStorage (fetchCompanies env (Some u) w) SELECTED_COMPANY_STORAGE_KEY
                      = Some (c_id d)
              | Inl e \<Rightarrow>
                  selectedCompany (fetchCompanies env (Some u) w) = Some (fallbackCompany u m)
                  \<and> companies (fetchCompanies env (Some u) w) = [fallbackCompany u m]
                  \<and> localStorage (fetchCompanies env (Some u) w) SELECTED_COMPANY_STORAGE_KEY
                      = Some (uc_id m)))
       \<and> (\<not> truthy (case u_companies u of c # _ \<Rightarrow> Some (uc_id c) | [] \<Rightarrow> None) \<longrightarrow>
             selectedCompany (fetchCompanies env (Some u) w) = None
             \<and> companies (fetchCompanies env (Some u) w) = []
             \<and> localStorage (fetchCompanies env (Some u) w) = localStorage w
             \<and> issued w (fetchCompanies env (Some u) w) = [])"
proof -
  let ?first = "case u_companies u of c # _ \<Rightarrow> Some (uc_id c) | [] \<Rightarrow> None"
  let ?A = "\<forall>k. GetItem k \<notin> set (issued w (fetchCompanies env (Some u) w))"
  let ?B = "\<forall>st. selectedCompany (fetchCompanies env (Some u) (w\<lparr>localStorage := st\<rparr>))
                 = selectedCompany (fetchCompanies env (Some u) w)
               \<and> companies (fetchCompanies env (Some u) (w\<lparr>localStorage := st\<rparr>))
                 = companies (fetchCompanies env (Some u) w)"
  let ?C = "\<forall>m ms. u_companies u = m # ms \<and> uc_id m \<noteq> [] \<longrightarrow>
             (case company_get env (uc_id m) of
                Inr d \<Rightarrow>
                  selectedCompany (fetchCompanies env (Some u) w) = Some d
                  \<and> companies (fetchCompanies env (Some u) w) = [d]
                  \<and> localStorage (fetchCompanies env (Some u) w) SELECTED_COMPANY_STORAGE_KEY
                      = Some (c_id d)
              | Inl e \<Rightarrow>
                  selectedCompany (fetchCompanies env (Some u) w) = Some (fallbackCompany u m)
                  \<and> companies (fetchCompanies env (Some u) w) = [fallbackCompany u m]
                  \<and> localStorage (fetchCompanies env (Some u) w) SELECTED_COMPANY_STORAGE_KEY
                      = Some (uc_id m))"
  let ?D = "\<not> truthy ?first \<longrightarrow>
             selectedCompany (fetchCompanies env (Some u) w) = None
             \<and> companies (fetchCompanies env (Some u) w) = []
             \<and> localStorage (fetchCompanies env (Some u) w) = localStorage w
             \<and> issued w (fetchCompanies env (Some u) w) = []"
  have "?A \<and> ?B \<and> ?C \<and> ?D"
  proof (cases "truthy ?first")
    case False
    have run: "fetchCompanies env (Some u) v =
        v\<lparr>companies := [], selectedCompany := None, cs_isLoading := False\<rparr>" for v
      using False by (rule fetchCompanies_no_membership)
    have iss: "issued w (fetchCompanies env (Some u) w) = []"
      by (rule issued_same) (simp add: run)
    have nomem: "\<not> (u_companies u = m # ms \<and> uc_id m \<noteq> [])" for m ms
      using False by (auto simp: truthy_def)
    have a: ?A by (simp add: iss)
    have b: ?B by (simp add: run)
    have c: ?C using nomem by blast
    have d: ?D by (simp add: iss) (simp add: run)
    from a b c d show ?thesis by blast
  next
    case True
    then obtain m ms where mem: "u_companies u = m # ms" and ne: "uc_id m \<noteq> []"
      by (auto simp: truthy_def split: list.splits)
    have run: "fetchCompanies env (Some u) v =
        (fetchAssigned env u (uc_id m) (v\<lparr>cs_isLoading := True\<rparr>))\<lparr>cs_isLoading := False\<rparr>" for v
      using assms mem ne by (rule fetchCompanies_assigned_branch)
    have d: ?D using True by simp
    show ?thesis
    proof (cases "company_get env (uc_id m)")
      case (Inl e)
      have tr: "trace (fetchCompanies env (Some u) w) =
          trace w @ [HttpGet (url_company_get (uc_id m)),
                     ConsoleError ''Failed to fetch company details:'',
                     SetItem SELECTED_COMPANY_STORAGE_KEY (uc_id m)]"
        by (simp add: run fetchAssigned_result Inl mem)
      have iss: "issued w (fetchCompanies env (Some u) w) =
          [HttpGet (url_company_get (uc_id m)),
           ConsoleError ''Failed to fetch company details:'',
           SetItem SELECTED_COMPANY_STORAGE_KEY (uc_id m)]"
        using tr by (rule issued_append)
      have a: ?A by (simp add: iss)
      have b: ?B by (simp add: run fetchAssigned_result Inl mem)
      have c: ?C by (simp add: mem Inl) (simp add: run fetchAssigned_result Inl mem)
      from a b c d show ?thesis by blast
    next
      case (Inr r)
      have tr: "trace (fetchCompanies env (Some u) w) =
          trace w @ [HttpGet (url_company_get (uc_id m)),
                     SetItem SELECTED_COMPANY_STORAGE_KEY (c_id r)]"
        by (simp add: run fetchAssigned_result Inr)
      have iss: "issued w (fetchCompanies env (Some u) w) =
          [HttpGet (url_company_get (uc_id m)),
           SetItem SELECTED_COMPANY_STORAGE_KEY (c_id r)]"
        using tr by (rule issued_append)
      have a: ?A by (simp add: iss)
      have b: ?B by (simp add: run fetchAssigned_result Inr)
      have c: ?C by (simp add: mem Inr) (simp add: run fetchAssigned_result Inr)
      from a b c d show ?thesis by blast
    qed
  qed
  then show ?thesis .
qed

text \<open>
  C10, as stated, fails: a \<open>team_member\<close> with no membership gets no active company, and
  the persisted entry \<open>old\<close> is not overwritten.
\<close>

theorem fetchCompanies_team_member_no_membership_counterexample:
  "u_role (exampleUser ''team_member'' [] []) = ''team_member''
   \<and> selectedCompany (fetchCompanies (exampleEnv [])
        (Some (exampleUser ''team_member'' [] []))
        (initialCompanyState [''csid'' \<mapsto> ''old''])) = None
   \<and> localStorage (fetchCompanies (exampleEnv [])
        (Some (exampleUser ''team_member'' [] []))
        (initialCompanyState [''csid'' \<mapsto> ''old''])) ''csid'' = Some ''old''
   \<and> trace (fetchCompanies (exampleEnv [])
        (Some (exampleUser ''team_member'' [] []))
        (initialCompanyState [''csid'' \<mapsto> ''old''])) = []"
  by (simp add: fetchCompanies_def truthy_def exampleUser_def initialCompanyState_def)

theorem fetchCompanies_team_member_resolution_witness:
  "u_role (exampleUser ''team_member'' [] [exampleMembership ''a'']) = ''team_member''
   \<and> uc_id (exampleMembership ''a'') \<noteq> []
   \<and> selectedCompany (fetchCompanies (exampleEnv [])
        (Some (exampleUser ''team_member'' [] [exampleMembership ''a'']))
        (initialCompanyState [''csid'' \<mapsto> ''old'']))
       = Some (fallbackCompany (exampleUser ''team_member'' [] [exampleMembership ''a''])
                 (exampleMembership ''a''))
   \<and> localStorage (fetchCompanies (exampleEnv [])
        (Some (exampleUser ''team_member'' [] [exampleMembership ''a'']))
        (initialCompanyState [''csid'' \<mapsto> ''old''])) ''csid'' = Some ''a''
   \<and> selectedCompany (fetchCompanies
        ((exampleEnv [])\<lparr>company_get := (\<lambda>_. Inr (exampleCompany ''a'' ''2024-01-01''))\<rparr>)
        (Some (exampleUser ''team_member'' [] [exampleMembership ''a'']))
        (initialCompanyState [''csid'' \<mapsto> ''old'']))
       = Some (exampleCompany ''a'' ''2024-01-01'')
   \<and> localStorage (fetchCompanies
        ((exampleEnv [])\<lparr>company_get := (\<lambda>_. Inr (exampleCompany ''a'' ''2024-01-01''))\<rparr>)
        (Some (exampleUser ''team_member'' [] [exampleMembership ''a'']))
        (initialCompanyState [''csid'' \<mapsto> ''old''])) ''csid'' = Some ''a''"
proof -
  let ?m = "exampleMembership ''a''"
  let ?u = "exampleUser ''team_member'' [] [?m]"
  let ?w = "initialCompanyState [''csid'' \<mapsto> ''old'']"
  let ?rejecting = "exampleEnv []"
  let ?answering = "(exampleEnv [])\<lparr>company_get := (\<lambda>_. Inr (exampleCompany ''a'' ''2024-01-01''))\<rparr>"
  have h1: "u_role ?u = ''team_member''" by (simp add: exampleUser_def)
  have h2: "u_companies ?u = ?m # []" by (simp add: exampleUser_def)
  have h3: "uc_id ?m \<noteq> []" by (simp add: exampleMembership_def)
  have ida: "uc_id ?m = ''a''" by (simp add: exampleMembership_def)
  have idc: "c_id (exampleCompany ''a'' ''2024-01-01'') = ''a''" by (simp add: exampleCompany_def)
  have key: "SELECTED_COMPANY_STORAGE_KEY = ''csid''" by (simp add: SELECTED_COMPANY_STORAGE_KEY_def)
  have rej: "company_get ?rejecting ''a'' = Inl (AxiosError None)"
    by (simp add: exampleEnv_def)
  have ans: "company_get ?answering ''a'' = Inr (exampleCompany ''a'' ''2024-01-01'')"
    by simp
  have c1: "selectedCompany (fetchCompanies ?rejecting (Some ?u) ?w) = Some (fallbackCompany ?u ?m)
      \<and> localStorage (fetchCompanies ?rejecting (Some ?u) ?w) ''csid'' = Some ''a''"
    using fetchCompanies_team_member_resolution [OF h1, of ?w ?rejecting,
        THEN conjunct2, THEN conjunct2, THEN conjunct1, rule_format, of ?m "[]"] h2 h3
    by (simp add: rej ida key)
  have c2: "selectedCompany (fetchCompanies ?answering (Some ?u) ?w)
        = Some (exampleCompany ''a'' ''2024-01-01'')
      \<and> localStorage (fetchCompanies ?answering (Some ?u) ?w) ''csid'' = Some ''a''"
    using fetchCompanies_team_member_resolution [OF h1, of ?w ?answering,
        THEN conjunct2, THEN conjunct2, THEN conjunct1, rule_format, of ?m "[]"] h2 h3
    by (simp add: ans ida idc key)
  from h1 h3 c1 c2 show ?thesis by blast
qed

end
